theory Spec2Isabelle
  imports Complex_Main "HOL-Library.AList" "HOL-Library.Word"
begin

section \<open>AndroPrint: the printer registry, the auth gate and the print dispatch\<close>

text \<open>
  The repository holds four variants of the server:
  \<^item> \<^verbatim>\<open>src/server.js\<close> (JSON files, quota on the roles CASHIER and KITCHEN); its
    definitions carry the prefix \<open>server_\<close>;
  \<^item> \<^verbatim>\<open>src/core/server.js\<close>, lines 1 to 269 (safe reads, auto-detected print payload,
    invoice printing); prefix \<open>core_\<close>;
  \<^item> \<^verbatim>\<open>src/core/server.js\<close>, lines 270 to 502 (printers kept in \<^verbatim>\<open>printer.env\<close> as an
    object keyed by id, raw socket printing, clients in memory); prefix \<open>env_\<close>;
  \<^item> \<^verbatim>\<open>src/unnamed/part_000\<close> (the "final stable" server); prefix \<open>stable_\<close>, and the
    unprefixed names \<open>safeRead\<close>, \<open>authRequired\<close>, \<open>isPrinterOnline\<close>.
  Functions that exist in one variant only keep their name (\<open>authCheck\<close>,
  \<open>printInvoice\<close>, \<open>rawPrint\<close>).

  A request handler is a function from what it reads (the collection returned by the
  loader, the request) to the response it sends and the collection it hands to the
  saver, if it writes at all. The encoding of a collection on disk is not modelled.
  Strings are lists of 8-bit characters.
\<close>

subsection \<open>JSON values and responses\<close>

datatype jsnum = Fin rat | PosInf | NegInf | NaN

datatype json =
    JNull
  | JBool bool
  | JNum jsnum
  | JStr string
  | JArr "json list"
  | JObj "(string \<times> json) list"

datatype response = Response nat json

fun status :: "response \<Rightarrow> nat" where
  "status (Response s b) = s"

definition error_reply :: "nat \<Rightarrow> string \<Rightarrow> response" where
  "error_reply s msg = Response s (JObj [(''error'', JStr msg)])"

definition success_reply :: response where
  "success_reply = Response 200 (JObj [(''success'', JBool True)])"

definition ok_reply :: response where
  "ok_reply = Response 200 (JObj [(''ok'', JBool True)])"

subsection \<open>Printer records\<close>

record connection =
  ip :: string
  port :: int

record printer =
  p_id :: string
  p_name :: "string option"
  p_role :: string
  p_connection :: connection
  p_enabled :: bool

text \<open>
  The records of the \<^verbatim>\<open>printer.env\<close> variant are flat: every field but the id is read
  from a line \<^verbatim>\<open>PRINTER_<id>_<FIELD>=<value>\<close> and may be missing.
\<close>

record env_printer =
  e_id :: string
  e_role :: "string option"
  e_status :: "string option"
  e_ip :: "string option"
  e_port :: "string option"
  e_cut :: "string option"

subsection \<open>Array helpers\<close>

text \<open>\<^verbatim>\<open>Array.prototype.findIndex\<close>: the index of the first match, or -1.\<close>

fun findIndex :: "('a \<Rightarrow> bool) \<Rightarrow> 'a list \<Rightarrow> int" where
  "findIndex P [] = - 1"
| "findIndex P (x # xs) =
     (if P x then 0 else (let r = findIndex P xs in if r < 0 then - 1 else r + 1))"

text \<open>
  \<^verbatim>\<open>xs[i] = v\<close> for an index that findIndex returned: at -1 the assignment creates the
  property "-1" and leaves the elements alone.
\<close>

definition assign_at :: "'a list \<Rightarrow> int \<Rightarrow> 'a \<Rightarrow> 'a list" where
  "assign_at xs i v = (if i < 0 then xs else xs[nat i := v])"

subsection \<open>The printer registry of \<^verbatim>\<open>src/server.js\<close>\<close>

text \<open>
  \<^verbatim>\<open>app.post("/api/printer/save")\<close>, lines 110 to 128. The result is the response and
  the array given to \<^verbatim>\<open>savePrinters\<close>; \<open>None\<close> when the handler returns before it.
\<close>

definition server_printer_save :: "printer list \<Rightarrow> printer \<Rightarrow> response \<times> printer list option" where
  "server_printer_save printers p =
     (let cash = length (filter (\<lambda>x. p_role x = ''CASHIER'') printers);
          kit = length (filter (\<lambda>x. p_role x = ''KITCHEN'') printers)
      in if find (\<lambda>x. p_id x = p_id p) printers = None then
           if p_role p = ''CASHIER'' \<and> cash \<ge> 3 then
             (error_reply 400 ''Max Cashier printers reached'', None)
           else if p_role p = ''KITCHEN'' \<and> kit \<ge> 3 then
             (error_reply 400 ''Max Kitchen printers reached'', None)
           else (success_reply, Some (printers @ [p]))
         else
           (let i = findIndex (\<lambda>x. p_id x = p_id p) printers
            in (success_reply, Some (assign_at printers i p))))"

text \<open>\<^verbatim>\<open>app.post("/api/printer/delete")\<close>, lines 130 to 134.\<close>

definition server_printer_delete :: "printer list \<Rightarrow> string \<Rightarrow> response \<times> printer list option" where
  "server_printer_delete printers i =
     (success_reply, Some (filter (\<lambda>p. p_id p \<noteq> i) printers))"

subsection \<open>The printer registry of \<^verbatim>\<open>src/unnamed/part_000\<close>\<close>

text \<open>\<^verbatim>\<open>app.post("/api/printer/save")\<close>, lines 212 to 222, after the auth gate: no quota.\<close>

definition stable_printer_save :: "printer list \<Rightarrow> printer \<Rightarrow> response \<times> printer list option" where
  "stable_printer_save printers p =
     (let index = findIndex (\<lambda>x. p_id x = p_id p) printers
      in if index \<ge> 0 then (success_reply, Some (assign_at printers index p))
         else (success_reply, Some (printers @ [p])))"

text \<open>\<^verbatim>\<open>app.post("/api/printer/delete")\<close>, lines 224 to 228.\<close>

definition stable_printer_delete :: "printer list \<Rightarrow> string \<Rightarrow> response \<times> printer list option" where
  "stable_printer_delete printers i =
     (success_reply, Some (filter (\<lambda>p. p_id p \<noteq> i) printers))"

subsection \<open>The printer registry of the \<^verbatim>\<open>printer.env\<close> variant\<close>

text \<open>
  \<^verbatim>\<open>loadPrinters\<close> returns a plain object keyed by id: an association list in insertion
  order. A plain object also answers to the property names it inherits from
  \<^verbatim>\<open>Object.prototype\<close>, with a truthy value.
\<close>

definition Object_prototype_names :: "string list" where
  "Object_prototype_names =
     [''constructor'', ''toString'', ''toLocaleString'', ''valueOf'', ''hasOwnProperty'',
      ''isPrototypeOf'', ''propertyIsEnumerable'', ''__proto__'', ''__defineGetter__'',
      ''__defineSetter__'', ''__lookupGetter__'', ''__lookupSetter__'']"

text \<open>\<^verbatim>\<open>!printers[id]\<close>: every stored record is an object, hence truthy.\<close>

definition env_missing :: "(string \<times> env_printer) list \<Rightarrow> string \<Rightarrow> bool" where
  "env_missing printers i = (map_of printers i = None \<and> i \<notin> set Object_prototype_names)"

text \<open>
  \<^verbatim>\<open>app.post("/api/printer/save")\<close>, lines 430 to 441 of \<^verbatim>\<open>src/core/server.js\<close>. The
  assignment \<^verbatim>\<open>printers[id] = req.body\<close> replaces the value of an own key in place and
  adds a new key at the end; for an inherited name it is not modelled beyond the
  association list.
\<close>

definition env_printer_save ::
  "(string \<times> env_printer) list \<Rightarrow> env_printer \<Rightarrow> response \<times> (string \<times> env_printer) list option" where
  "env_printer_save printers b =
     (let count = length (filter (\<lambda>p. e_role p = e_role b) (map snd printers))
      in if env_missing printers (e_id b) \<and> count \<ge> 3 then
           (error_reply 400 ''Max 3 printers per role'', None)
         else (ok_reply, Some (AList.update (e_id b) b printers)))"

subsection \<open>Client records and the auth gate\<close>

text \<open>
  A client record as an object: \<^verbatim>\<open>id\<close> and \<^verbatim>\<open>pin\<close> are always written by the
  registration; the other fields are absent (\<open>None\<close>) in the in-memory variant.
\<close>

record client =
  c_id :: string
  c_pin :: string
  c_role :: "string option"
  c_enabled :: "bool option"
  c_createdAt :: "string option"

text \<open>
  A request header is absent (\<open>None\<close>) or a string. \<^verbatim>\<open>!h\<close> holds of an absent header
  and of the empty string.
\<close>

definition falsy_header :: "string option \<Rightarrow> bool" where
  "falsy_header h = (h = None \<or> h = Some [])"

text \<open>\<^verbatim>\<open>!c.enabled\<close> for a flag that is absent or a boolean.\<close>

definition falsy_flag :: "bool option \<Rightarrow> bool" where
  "falsy_flag f = (f \<noteq> Some True)"

text \<open>
  The outcome of a middleware: it calls \<^verbatim>\<open>next()\<close>, with the client it attached to the
  request if any, or it sends a response.
\<close>

datatype auth_outcome = Next "client option" | Reply response

text \<open>
  \<^verbatim>\<open>authRequired\<close> of \<^verbatim>\<open>src/unnamed/part_000\<close>, lines 101 to 123. The first argument is
  the constant \<^verbatim>\<open>ENABLE_AUTH\<close>, the second what \<^verbatim>\<open>loadClients()\<close> returns.
\<close>

definition authRequired ::
  "bool \<Rightarrow> client list \<Rightarrow> string option \<Rightarrow> string option \<Rightarrow> auth_outcome" where
  "authRequired ENABLE_AUTH clients cid key =
     (if \<not> ENABLE_AUTH then Next None
      else if falsy_header cid \<or> falsy_header key then
        Reply (error_reply 401 ''Client ID / Print Key missing'')
      else
        (case find (\<lambda>c. Some (c_id c) = cid) clients of
           None \<Rightarrow> Reply (error_reply 403 ''Client not allowed'')
         | Some client \<Rightarrow>
             if falsy_flag (c_enabled client) then Reply (error_reply 403 ''Client not allowed'')
             else if Some (c_pin client) \<noteq> key then Reply (error_reply 403 ''Invalid Print Key'')
             else Next (Some client)))"

text \<open>
  \<^verbatim>\<open>authCheck\<close> of \<^verbatim>\<open>src/server.js\<close>, lines 46 to 60: the boolean it returns and the
  response it has sent, if any. The first argument is
  \<^verbatim>\<open>process.env.ENABLE_CLIENT_AUTH === "true"\<close>.
\<close>

definition authCheck ::
  "bool \<Rightarrow> client list \<Rightarrow> string option \<Rightarrow> string option \<Rightarrow> bool \<times> response option" where
  "authCheck enabled clients i key =
     (if \<not> enabled then (True, None)
      else
        (case find (\<lambda>c. Some (c_id c) = i \<and> Some (c_pin c) = key \<and> \<not> falsy_flag (c_enabled c)) clients of
           None \<Rightarrow> (False, Some (error_reply 401 ''Unauthorized''))
         | Some valid \<Rightarrow> (True, None)))"


subsection \<open>Decimal and hexadecimal rendering\<close>

definition digit_char :: "nat \<Rightarrow> char" where
  "digit_char d = char_of (48 + d)"

text \<open>The decimal digits of a natural number, as \<^verbatim>\<open>toString\<close> writes an integer.\<close>

fun digits :: "nat \<Rightarrow> string" where
  "digits n = (if n < 10 then [digit_char n] else digits (n div 10) @ [digit_char (n mod 10)])"

declare digits.simps [simp del]

definition int_toString :: "int \<Rightarrow> string" where
  "int_toString k = (if k < 0 then CHR ''-'' # digits (nat (- k)) else digits (nat k))"

definition is_digit :: "char \<Rightarrow> bool" where
  "is_digit c = (48 \<le> (of_char c :: nat) \<and> (of_char c :: nat) \<le> 57)"




subsection \<open>Client registration\<close>




definition demo_client :: "string \<Rightarrow> string \<Rightarrow> bool \<Rightarrow> client" where
  "demo_client i pin en =
     \<lparr>c_id = i, c_pin = pin, c_role = Some ''CLIENT'', c_enabled = Some en,
      c_createdAt = Some ''2025-01-01T00:00:00.000Z''\<rparr>"

subsection \<open>JavaScript values read from a request body\<close>

text \<open>
  A value read from a parsed JSON body is a \<open>json\<close> value or \<^verbatim>\<open>undefined\<close> (\<open>None\<close>).
  A number is the exact value of its double; \<open>Fin 0\<close> stands for both zeros, which
  the operations below do not tell apart.
\<close>

fun truthy :: "json \<Rightarrow> bool" where
  "truthy JNull = False"
| "truthy (JBool b) = b"
| "truthy (JNum (Fin x)) = (x \<noteq> 0)"
| "truthy (JNum NaN) = False"
| "truthy (JNum PosInf) = True"
| "truthy (JNum NegInf) = True"
| "truthy (JStr s) = (s \<noteq> [])"
| "truthy (JArr xs) = True"
| "truthy (JObj kv) = True"

definition truthy_opt :: "json option \<Rightarrow> bool" where
  "truthy_opt a = (case a of None \<Rightarrow> False | Some v \<Rightarrow> truthy v)"

text \<open>\<^verbatim>\<open>a || b\<close> and \<^verbatim>\<open>a ?? b\<close>, for a default \<open>b\<close> that is defined.\<close>

definition or_else :: "json option \<Rightarrow> json \<Rightarrow> json" where
  "or_else a b = (case a of None \<Rightarrow> b | Some v \<Rightarrow> if truthy v then v else b)"

definition nullish_else :: "json option \<Rightarrow> json \<Rightarrow> json" where
  "nullish_else a b = (case a of None \<Rightarrow> b | Some v \<Rightarrow> if v = JNull then b else v)"

text \<open>
  \<^verbatim>\<open>v.k\<close> for a value \<open>v\<close> that is neither \<^verbatim>\<open>null\<close> nor \<^verbatim>\<open>undefined\<close>, and a name \<open>k\<close>
  that no prototype defines (every name the handlers read is of this kind): an own
  property of an object, \<^verbatim>\<open>undefined\<close> on every other value. The keys of a parsed object
  are distinct.
\<close>

fun get :: "json \<Rightarrow> string \<Rightarrow> json option" where
  "get (JObj kv) k = map_of kv k"
| "get v k = None"

text \<open>\<^verbatim>\<open>v?.k\<close>: \<^verbatim>\<open>undefined\<close> when \<open>v\<close> is \<^verbatim>\<open>null\<close> or \<^verbatim>\<open>undefined\<close>.\<close>

definition get_optional :: "json option \<Rightarrow> string \<Rightarrow> json option" where
  "get_optional a k = (case a of None \<Rightarrow> None | Some v \<Rightarrow> get v k)"

text \<open>\<^verbatim>\<open>v[0]\<close> for a value that is neither \<^verbatim>\<open>null\<close> nor \<^verbatim>\<open>undefined\<close>.\<close>

fun index0 :: "json \<Rightarrow> json option" where
  "index0 (JArr []) = None"
| "index0 (JArr (x # xs)) = Some x"
| "index0 (JStr []) = None"
| "index0 (JStr (c # cs)) = Some (JStr [c])"
| "index0 (JObj kv) = map_of kv ''0''"
| "index0 v = None"

text \<open>
  The conversions of the language that the model does not compute are parameters:
  \<open>StringToNumber\<close> (the value of \<^verbatim>\<open>Number(s)\<close> for a string) and \<open>Number_toString\<close>
  (the text of a finite number that is not an integer below \<open>10^21\<close> in magnitude).
\<close>

record js_runtime =
  StringToNumber :: "string \<Rightarrow> jsnum"
  Number_toString :: "rat \<Rightarrow> string"

definition is_integer :: "rat \<Rightarrow> bool" where
  "is_integer x = (of_int \<lfloor>x\<rfloor> = x)"

text \<open>\<^verbatim>\<open>Number::toString\<close>: an integer below \<open>10^21\<close> in magnitude is written in full.\<close>

definition num_toString :: "js_runtime \<Rightarrow> jsnum \<Rightarrow> string" where
  "num_toString rt n =
     (case n of
        NaN \<Rightarrow> ''NaN''
      | PosInf \<Rightarrow> ''Infinity''
      | NegInf \<Rightarrow> ''-Infinity''
      | Fin x \<Rightarrow>
          if is_integer x \<and> \<bar>x\<bar> < 10 ^ 21 then int_toString \<lfloor>x\<rfloor>
          else Number_toString rt x)"

fun join_comma :: "string list \<Rightarrow> string" where
  "join_comma [] = []"
| "join_comma [s] = s"
| "join_comma (s # t # ss) = s @ '','' @ join_comma (t # ss)"

text \<open>
  \<^verbatim>\<open>String(v)\<close>, and the string that \<^verbatim>\<open>"..." + v\<close> appends. An array joins its elements
  with commas, \<^verbatim>\<open>null\<close> elements as empty strings; an object (taken to have no own
  \<^verbatim>\<open>toString\<close> or \<^verbatim>\<open>valueOf\<close> key) is \<^verbatim>\<open>[object Object]\<close>.
\<close>

fun ToString :: "js_runtime \<Rightarrow> json \<Rightarrow> string" where
  "ToString rt JNull = ''null''"
| "ToString rt (JBool b) = (if b then ''true'' else ''false'')"
| "ToString rt (JNum n) = num_toString rt n"
| "ToString rt (JStr s) = s"
| "ToString rt (JArr xs) =
     join_comma (map (\<lambda>x. if x = JNull then [] else ToString rt x) xs)"
| "ToString rt (JObj kv) = ''[object Object]''"

text \<open>\<^verbatim>\<open>Number(v)\<close>.\<close>

fun ToNumber :: "js_runtime \<Rightarrow> json \<Rightarrow> jsnum" where
  "ToNumber rt JNull = Fin 0"
| "ToNumber rt (JBool b) = Fin (if b then 1 else 0)"
| "ToNumber rt (JNum n) = n"
| "ToNumber rt (JStr s) = StringToNumber rt s"
| "ToNumber rt (JArr xs) = StringToNumber rt (ToString rt (JArr xs))"
| "ToNumber rt (JObj kv) = NaN"

text \<open>
  \<^verbatim>\<open>Number.prototype.toFixed(f)\<close> for \<open>f\<close> from 1 to 100, by the steps of the language
  specification: a number that is not finite is written by name; the sign is split off;
  from \<open>10^21\<close> on the number is written as \<^verbatim>\<open>toString\<close> writes it; below, \<open>n\<close> is the
  integer nearest to \<open>x * 10^f\<close> (the larger of two), written with at least \<open>f + 1\<close>
  digits and a point before the last \<open>f\<close>.
\<close>

definition toFixed :: "js_runtime \<Rightarrow> nat \<Rightarrow> jsnum \<Rightarrow> string" where
  "toFixed rt f n =
     (case n of
        NaN \<Rightarrow> ''NaN''
      | PosInf \<Rightarrow> ''Infinity''
      | NegInf \<Rightarrow> ''-Infinity''
      | Fin x0 \<Rightarrow>
          (let s = (if x0 < 0 then ''-'' else []);
               x = \<bar>x0\<bar>
           in if x \<ge> 10 ^ 21 then s @ num_toString rt (Fin x)
              else
                (let n = nat \<lfloor>x * 10 ^ f + 1 / 2\<rfloor>;
                     m0 = digits n;
                     m = (if length m0 \<le> f then replicate (f + 1 - length m0) CHR ''0'' @ m0 else m0);
                     k = length m
                 in s @ take (k - f) m @ ''.'' @ drop (k - f) m)))"

subsection \<open>The invoice printer of \<^verbatim>\<open>src/core/server.js\<close>\<close>

text \<open>The commands a handler gives to the printer object before \<^verbatim>\<open>execute\<close>.\<close>

datatype align = LEFT | CENTER | RIGHT

record cell =
  cell_text :: string
  cell_cols :: nat
  cell_align :: "align option"

datatype command =
    AlignCenter
  | AlignLeft
  | AlignRight
  | Bold bool
  | Println json
  | DrawLine
  | NewLine
  | TableCustom "cell list"
  | Cut

text \<open>
  What a handler throws: a \<^verbatim>\<open>TypeError\<close> of the engine (the model names the expression
  that failed where the engine has its message), or the error a rejected
  \<^verbatim>\<open>execute()\<close> carries.
\<close>

datatype js_error = TypeError string | ExecuteError string

fun message :: "js_error \<Rightarrow> string" where
  "message (TypeError m) = m"
| "message (ExecuteError m) = m"

text \<open>
  The callback of \<^verbatim>\<open>table.forEach\<close>, lines 228 to 239: the row of the line item \<open>it\<close>
  at the index \<open>i\<close>. A \<^verbatim>\<open>null\<close> item makes \<^verbatim>\<open>it.ItemNameTextField\<close> throw.
\<close>

definition invoice_row :: "js_runtime \<Rightarrow> nat \<Rightarrow> json \<Rightarrow> js_error + command" where
  "invoice_row rt i it =
     (if it = JNull then Inl (TypeError ''it.ItemNameTextField'')
      else Inr (TableCustom
        [\<lparr>cell_text = digits (i + 1), cell_cols = 3, cell_align = None\<rparr>,
         \<lparr>cell_text = take 18 (ToString rt (or_else (get it ''ItemNameTextField'') (JStr []))),
          cell_cols = 18, cell_align = None\<rparr>,
         \<lparr>cell_text = ToString rt (or_else (get it ''qty'') (JNum (Fin 0))),
          cell_cols = 4, cell_align = Some RIGHT\<rparr>,
         \<lparr>cell_text = toFixed rt 2 (ToNumber rt (or_else (get it ''total'') (JNum (Fin 0)))),
          cell_cols = 7, cell_align = Some RIGHT\<rparr>]))"

text \<open>The loop of \<^verbatim>\<open>forEach\<close>: the rows in order, up to the first item that throws.\<close>

fun invoice_rows :: "js_runtime \<Rightarrow> nat \<Rightarrow> json list \<Rightarrow> js_error + command list" where
  "invoice_rows rt i [] = Inr []"
| "invoice_rows rt i (it # its) =
     (case invoice_row rt i it of
        Inl e \<Rightarrow> Inl e
      | Inr row \<Rightarrow>
          (case invoice_rows rt (i + 1) its of
             Inl e \<Rightarrow> Inl e
           | Inr rows \<Rightarrow> Inr (row # rows)))"

text \<open>The optional lines: \<^verbatim>\<open>if (v) printer.println(prefix + v)\<close>.\<close>

definition optional_line :: "js_runtime \<Rightarrow> string \<Rightarrow> json option \<Rightarrow> command list" where
  "optional_line rt prefix v =
     (case v of
        None \<Rightarrow> []
      | Some w \<Rightarrow> if truthy w then [Println (JStr (prefix @ ToString rt w))] else [])"

text \<open>
  \<^verbatim>\<open>printInvoice\<close>, lines 198 to 256, up to the call of \<^verbatim>\<open>execute\<close>: the commands given
  to the printer, or the error thrown on the way. The destructuring defaults apply to
  an absent field, not to \<^verbatim>\<open>null\<close>.
\<close>

definition printInvoice :: "js_runtime \<Rightarrow> json \<Rightarrow> js_error + command list" where
  "printInvoice rt data =
     (let company = (case get data ''company'' of None \<Rightarrow> JArr [] | Some v \<Rightarrow> v);
          master = (case get data ''master'' of None \<Rightarrow> JObj [] | Some v \<Rightarrow> v);
          table = (case get data ''table'' of None \<Rightarrow> JArr [] | Some v \<Rightarrow> v)
      in if company = JNull then Inl (TypeError ''company[0]'')
         else
           (let comp = or_else (index0 company) (JObj []);
                header =
                  [AlignCenter, Bold True, Println (or_else (get comp ''Name'') (JStr ''COMPANY'')),
                   Bold False] @
                  (case get comp ''Place'' of
                     None \<Rightarrow> []
                   | Some w \<Rightarrow> if truthy w then [Println w] else []) @
                  optional_line rt ''Ph: '' (get comp ''Ph'') @
                  optional_line rt ''GSTIN: '' (get comp ''gst'') @
                  [DrawLine, AlignLeft]
            in if master = JNull then Inl (TypeError ''master.BillNo'')
               else
                 (let bill =
                        [Println (JStr (''Bill No : '' @
                           ToString rt (nullish_else (get master ''BillNo'') (JStr [])))),
                         Println (JStr (''Date    : '' @
                           ToString rt (or_else (get master ''BillDate'') (JStr [])) @ '' '' @
                           ToString rt (or_else (get master ''BillTime'') (JStr []))))] @
                        optional_line rt ''Party   : '' (get master ''BillPartyName'') @
                        [DrawLine]
                  in case table of
                       JArr items \<Rightarrow>
                         (case invoice_rows rt 0 items of
                            Inl e \<Rightarrow> Inl e
                          | Inr rows \<Rightarrow>
                              Inr (header @ bill @ rows @
                                [DrawLine, AlignRight, Bold True,
                                 Println (JStr (''NET TOTAL : '' @
                                   toFixed rt 2 (ToNumber rt
                                     (or_else (get master ''BillNetTotalField'') (JNum (Fin 0)))))),
                                 Bold False, NewLine, AlignCenter,
                                 Println (JStr ''Thank you!''), Cut]))
                     | other \<Rightarrow> Inl (TypeError ''table.forEach''))))"

subsection \<open>Notions the invoice claim is stated in\<close>

text \<open>
  A runtime for the examples: it converts a string of decimal digits to its value and
  every other string to \<^verbatim>\<open>NaN\<close>, and is never asked for the text of a fraction.
\<close>

fun digits_value :: "string \<Rightarrow> nat \<Rightarrow> nat" where
  "digits_value [] acc = acc"
| "digits_value (c # cs) acc = digits_value cs (10 * acc + (of_char c - 48))"

definition demo_runtime :: js_runtime where
  "demo_runtime =
     \<lparr>StringToNumber = (\<lambda>s. if s \<noteq> [] \<and> list_all is_digit s then Fin (of_nat (digits_value s 0)) else NaN),
      Number_toString = (\<lambda>x. ''?'')\<rparr>"

subsection \<open>Printer resolution and the print routes\<close>

text \<open>
  \<^verbatim>\<open>String.prototype.toLowerCase\<close> on 8-bit characters: the letters A to Z and the
  capital letters of Latin-1 move up by 32.
\<close>

definition toLowerCase_char :: "char \<Rightarrow> char" where
  "toLowerCase_char c =
     (let n = (of_char c :: nat)
      in if (65 \<le> n \<and> n \<le> 90) \<or> (192 \<le> n \<and> n \<le> 222 \<and> n \<noteq> 215) then char_of (n + 32)
         else c)"

definition toLowerCase :: "string \<Rightarrow> string" where
  "toLowerCase s = map toLowerCase_char s"

text \<open>
  What a print route hands to \<^verbatim>\<open>execute\<close>: the connection of the resolved printer and
  the commands; \<open>None\<close> when the route returns before. The outcome of \<^verbatim>\<open>execute\<close> is
  an input: \<open>None\<close> when its promise resolves, the error message when it rejects.
\<close>

type_synonym job = "connection \<times> command list"

text \<open>
  The predicate of \<^verbatim>\<open>find\<close> in \<^verbatim>\<open>app.post("/print")\<close> of \<^verbatim>\<open>src/core/server.js\<close>, lines 143
  to 150.
\<close>

definition core_matches :: "string \<Rightarrow> printer \<Rightarrow> bool" where
  "core_matches printerId p =
     (p_enabled p \<and>
      (toLowerCase (p_id p) = toLowerCase printerId \<or>
       (case p_name p of None \<Rightarrow> False | Some n \<Rightarrow> toLowerCase n = toLowerCase printerId)))"

text \<open>
  \<^verbatim>\<open>app.post("/print")\<close> of \<^verbatim>\<open>src/core/server.js\<close>, lines 136 to 192, after the auth
  gate. Inputs: the printers loaded, the header \<^verbatim>\<open>x-printer-id\<close>, the body, what
  \<^verbatim>\<open>isPrinterConnected()\<close> answers, and the outcome of \<^verbatim>\<open>execute\<close>.
\<close>

definition core_print ::
  "js_runtime \<Rightarrow> printer list \<Rightarrow> string option \<Rightarrow> json \<Rightarrow> bool \<Rightarrow> string option \<Rightarrow>
     response \<times> job option" where
  "core_print rt printers hdr body isConnected exec =
     (if falsy_header hdr then (error_reply 400 ''x-printer-id missing'', None)
      else
        (case find (core_matches (the hdr)) printers of
           None \<Rightarrow> (error_reply 404 ''Printer not found or disabled'', None)
         | Some printerCfg \<Rightarrow>
             if \<not> isConnected then (error_reply 500 ''Printer offline'', None)
             else if truthy_opt (get_optional (get body ''isInvoiceData'') ''isInvoice'') then
               (case printInvoice rt body of
                  Inl e \<Rightarrow> (error_reply 500 (message e), None)
                | Inr cmds \<Rightarrow>
                    (case exec of
                       Some msg \<Rightarrow> (error_reply 500 msg, Some (p_connection printerCfg, cmds))
                     | None \<Rightarrow>
                         (Response 200 (JObj [(''success'', JBool True), (''mode'', JStr ''invoice'')]),
                          Some (p_connection printerCfg, cmds))))
             else
               (case get body ''text'' of
                  None \<Rightarrow> (error_reply 400 ''Unsupported print payload'', None)
                | Some t \<Rightarrow>
                    if truthy t then
                      (case exec of
                         Some msg \<Rightarrow>
                           (error_reply 500 msg, Some (p_connection printerCfg, [Println t, Cut]))
                       | None \<Rightarrow>
                           (Response 200 (JObj [(''success'', JBool True), (''mode'', JStr ''text'')]),
                            Some (p_connection printerCfg, [Println t, Cut])))
                    else (error_reply 400 ''Unsupported print payload'', None))))"

text \<open>
  \<^verbatim>\<open>app.post("/print")\<close> of \<^verbatim>\<open>src/unnamed/part_000\<close>, lines 279 to 316, with
  \<^verbatim>\<open>printText\<close> (lines 146 to 158), after the auth gate. The printer id is the header
  or, when that is missing or empty, the field \<^verbatim>\<open>printerId\<close> of the body; it is compared
  with \<^verbatim>\<open>===\<close>.
\<close>

definition stable_print ::
  "printer list \<Rightarrow> string option \<Rightarrow> json \<Rightarrow> string option \<Rightarrow> response \<times> job option" where
  "stable_print printers hdr body exec =
     (let printerId = (if falsy_header hdr then get body ''printerId'' else map_option JStr hdr);
          text = get body ''text''
      in case (printerId, text) of
           (Some i, Some t) \<Rightarrow>
             if \<not> truthy i \<or> \<not> truthy t then (error_reply 400 ''printerId or text missing'', None)
             else
               (case find (\<lambda>p. JStr (p_id p) = i \<and> p_enabled p) printers of
                  None \<Rightarrow> (error_reply 404 ''Printer not found or disabled'', None)
                | Some printer \<Rightarrow>
                    (case exec of
                       Some msg \<Rightarrow>
                         (error_reply 500 msg, Some (p_connection printer, [Println t, Cut]))
                     | None \<Rightarrow>
                         (Response 200
                            (JObj [(''success'', JBool True), (''message'', JStr ''Printed successfully''),
                                   (''printerId'', i)]),
                          Some (p_connection printer, [Println t, Cut]))))
         | other \<Rightarrow> (error_reply 400 ''printerId or text missing'', None))"

subsection \<open>Raw printing in the \<^verbatim>\<open>printer.env\<close> variant\<close>

text \<open>
  \<^verbatim>\<open>rawPrint\<close>, lines 357 to 364 of \<^verbatim>\<open>src/core/server.js\<close>: it starts a connection to the
  printer's port and address and returns at once. The writes happen in the connect
  callback, if the connection is ever made; no listener is registered for an error.
\<close>

datatype socket_op = Write string | End

record raw_job =
  job_port :: "string option"
  job_ip :: "string option"
  on_connect :: "socket_op list"

definition rawPrint :: "env_printer \<Rightarrow> string \<Rightarrow> raw_job" where
  "rawPrint printer text =
     \<lparr>job_port = e_port printer, job_ip = e_ip printer,
      on_connect =
        [Write (text @ [CHR 0x0A, CHR 0x0A])] @
        (if e_cut printer = Some ''true'' then [Write [CHR 0x1D, CHR 0x56, CHR 0x00]] else []) @
        [End]\<rparr>"

text \<open>
  \<^verbatim>\<open>app.post("/print")\<close>, lines 461 to 471, after the auth gate. Inputs: the printers
  loaded, the header \<^verbatim>\<open>x-printer-id\<close>, \<^verbatim>\<open>process.env.DEFAULT_PRINTER\<close> and the body. The
  response is sent right after \<^verbatim>\<open>rawPrint\<close> returns: no outcome of the connection is an
  input of the handler. A name inherited from \<^verbatim>\<open>Object.prototype\<close> yields a function,
  which has no \<^verbatim>\<open>status\<close>, so it is answered like a missing key.
\<close>

definition env_print ::
  "js_runtime \<Rightarrow> (string \<times> env_printer) list \<Rightarrow> string option \<Rightarrow> string option \<Rightarrow> json \<Rightarrow>
     response \<times> raw_job option" where
  "env_print rt printers hdr DEFAULT_PRINTER body =
     (let pid = (if falsy_header hdr then DEFAULT_PRINTER else hdr);
          key = (case pid of None \<Rightarrow> ''undefined'' | Some k \<Rightarrow> k)
      in case map_of printers key of
           None \<Rightarrow> (error_reply 400 ''Printer unavailable'', None)
         | Some p \<Rightarrow>
             if e_status p \<noteq> Some ''enabled'' then (error_reply 400 ''Printer unavailable'', None)
             else (ok_reply, Some (rawPrint p (ToString rt (or_else (get body ''text'') (JStr []))))))"

subsection \<open>Reading the stored collections\<close>

text \<open>
  The state of a storage file: absent, present but unreadable (\<^verbatim>\<open>readFileSync\<close> throws),
  or present with a content. \<^verbatim>\<open>JSON.parse\<close> is a parameter \<open>parse\<close>: \<open>None\<close> when it
  throws a \<^verbatim>\<open>SyntaxError\<close>.
\<close>

datatype stored_file = Absent | Unreadable | Content string

datatype read_error = FsError | SyntaxError | NullProperty

text \<open>\<^verbatim>\<open>String.prototype.trim\<close> on 8-bit characters.\<close>

definition is_js_space :: "char \<Rightarrow> bool" where
  "is_js_space c = ((of_char c :: nat) \<in> {9, 10, 11, 12, 13, 32, 160})"

definition trim :: "string \<Rightarrow> string" where
  "trim s = rev (dropWhile is_js_space (rev (dropWhile is_js_space s)))"

text \<open>\<^verbatim>\<open>safeRead\<close> of \<^verbatim>\<open>src/unnamed/part_000\<close>, lines 66 to 75.\<close>

definition safeRead :: "(string \<Rightarrow> json option) \<Rightarrow> stored_file \<Rightarrow> json \<Rightarrow> json" where
  "safeRead parse f fallback =
     (case f of
        Absent \<Rightarrow> fallback
      | Unreadable \<Rightarrow> fallback
      | Content s \<Rightarrow>
          (let raw = trim s
           in if raw = [] then fallback
              else (case parse raw of None \<Rightarrow> fallback | Some v \<Rightarrow> v)))"

text \<open>
  \<^verbatim>\<open>loadPrinters\<close> and \<^verbatim>\<open>loadClients\<close> of \<^verbatim>\<open>part_000\<close>, lines 83 to 93: the property
  is read outside \<^verbatim>\<open>safeRead\<close>, and reading it from \<^verbatim>\<open>null\<close> throws.
\<close>

definition stable_loadPrinters :: "(string \<Rightarrow> json option) \<Rightarrow> stored_file \<Rightarrow> read_error + json option" where
  "stable_loadPrinters parse f =
     (let data = safeRead parse f (JObj [(''printers'', JArr [])])
      in if data = JNull then Inl NullProperty else Inr (get data ''printers''))"

definition stable_loadClients :: "(string \<Rightarrow> json option) \<Rightarrow> stored_file \<Rightarrow> read_error + json option" where
  "stable_loadClients parse f =
     (let data = safeRead parse f (JObj [(''clients'', JArr [])])
      in if data = JNull then Inl NullProperty else Inr (get data ''clients''))"

text \<open>\<^verbatim>\<open>safeRead\<close>, \<^verbatim>\<open>loadPrinters\<close> and \<^verbatim>\<open>loadClients\<close> of \<^verbatim>\<open>src/core/server.js\<close>, lines 40 to 56.\<close>

definition core_safeRead :: "(string \<Rightarrow> json option) \<Rightarrow> stored_file \<Rightarrow> json \<Rightarrow> json" where
  "core_safeRead parse f fallback =
     (case f of
        Absent \<Rightarrow> fallback
      | Unreadable \<Rightarrow> fallback
      | Content s \<Rightarrow> (case parse s of None \<Rightarrow> fallback | Some v \<Rightarrow> v))"

definition core_loadPrinters :: "(string \<Rightarrow> json option) \<Rightarrow> stored_file \<Rightarrow> read_error + json" where
  "core_loadPrinters parse f =
     (let data = core_safeRead parse f (JObj [(''printers'', JArr [])])
      in if data = JNull then Inl NullProperty
         else Inr (or_else (get data ''printers'') (JArr [])))"

definition core_loadClients :: "(string \<Rightarrow> json option) \<Rightarrow> stored_file \<Rightarrow> json" where
  "core_loadClients parse f = core_safeRead parse f (JArr [])"

text \<open>
  \<^verbatim>\<open>readPrinters\<close> and \<^verbatim>\<open>readClients\<close> of \<^verbatim>\<open>src/server.js\<close>, lines 41 to 44:
  \<^verbatim>\<open>JSON.parse(fs.readFileSync(FILE)).printers\<close> with no handler around it. At start-up
  (lines 30 and 31) a missing file is created with an empty collection.
\<close>

definition server_readPrinters :: "(string \<Rightarrow> json option) \<Rightarrow> stored_file \<Rightarrow> read_error + json option" where
  "server_readPrinters parse f =
     (case f of
        Absent \<Rightarrow> Inl FsError
      | Unreadable \<Rightarrow> Inl FsError
      | Content s \<Rightarrow>
          (case parse s of
             None \<Rightarrow> Inl SyntaxError
           | Some v \<Rightarrow> if v = JNull then Inl NullProperty else Inr (get v ''printers'')))"

definition server_readClients :: "(string \<Rightarrow> json option) \<Rightarrow> stored_file \<Rightarrow> read_error + json option" where
  "server_readClients parse f =
     (case f of
        Absent \<Rightarrow> Inl FsError
      | Unreadable \<Rightarrow> Inl FsError
      | Content s \<Rightarrow>
          (case parse s of
             None \<Rightarrow> Inl SyntaxError
           | Some v \<Rightarrow> if v = JNull then Inl NullProperty else Inr (get v ''clients'')))"

text \<open>
  A parser for the examples: it knows the three shortest JSON texts and refuses every
  other string.
\<close>

definition demo_parse :: "string \<Rightarrow> json option" where
  "demo_parse s =
     (if s = ''[]'' then Some (JArr [])
      else if s = ''{}'' then Some (JObj [])
      else if s = ''null'' then Some JNull
      else None)"

subsection \<open>The liveness probe\<close>

text \<open>
  The probe registers listeners on a socket and returns a promise. The model is the
  state the listeners act on: the value the promise is settled with (\<open>None\<close> while it is
  pending), whether the probe has called \<^verbatim>\<open>socket.destroy()\<close>, the variable \<^verbatim>\<open>online\<close>,
  and which one-shot listeners have run. Which events the socket emits, and when, is
  the environment's part: a run is a list of events.
\<close>

datatype socket_event = Connect | SocketError | Timeout | Close

record probe =
  settled :: "bool option"
  destroyed :: bool
  online :: bool
  ran_connect :: bool
  ran_error :: bool
  ran_timeout :: bool

definition probe_start :: probe where
  "probe_start =
     \<lparr>settled = None, destroyed = False, online = False, ran_connect = False,
      ran_error = False, ran_timeout = False\<rparr>"

text \<open>\<^verbatim>\<open>resolve(v)\<close>: only the first call settles the promise.\<close>

definition resolve :: "bool \<Rightarrow> probe \<Rightarrow> probe" where
  "resolve v st = (if settled st = None then st\<lparr>settled := Some v\<rparr> else st)"

text \<open>
  \<^verbatim>\<open>isPrinterOnline\<close> of \<^verbatim>\<open>src/core/server.js\<close>, lines 98 to 110: three listeners
  registered with \<^verbatim>\<open>once\<close>, none for \<^verbatim>\<open>close\<close>.
\<close>

fun core_isPrinterOnline_on :: "probe \<Rightarrow> socket_event \<Rightarrow> probe" where
  "core_isPrinterOnline_on st Connect =
     (if ran_connect st then st
      else resolve True (st\<lparr>ran_connect := True, destroyed := True\<rparr>))"
| "core_isPrinterOnline_on st SocketError =
     (if ran_error st then st else resolve False (st\<lparr>ran_error := True\<rparr>))"
| "core_isPrinterOnline_on st Timeout =
     (if ran_timeout st then st else resolve False (st\<lparr>ran_timeout := True\<rparr>))"
| "core_isPrinterOnline_on st Close = st"

definition core_isPrinterOnline :: "socket_event list \<Rightarrow> probe" where
  "core_isPrinterOnline events = foldl core_isPrinterOnline_on probe_start events"

text \<open>
  \<^verbatim>\<open>isPrinterOnline\<close> of \<^verbatim>\<open>src/unnamed/part_000\<close>, lines 127 to 142: the connect callback
  (a one-shot listener) sets \<^verbatim>\<open>online\<close> and destroys the socket, the timeout listener
  destroys it, the error listener does nothing, and the close listener resolves.
\<close>

fun isPrinterOnline_on :: "probe \<Rightarrow> socket_event \<Rightarrow> probe" where
  "isPrinterOnline_on st Connect =
     (if ran_connect st then st
      else st\<lparr>ran_connect := True, online := True, destroyed := True\<rparr>)"
| "isPrinterOnline_on st SocketError = st"
| "isPrinterOnline_on st Timeout = st\<lparr>destroyed := True\<rparr>"
| "isPrinterOnline_on st Close = resolve (online st) st"

definition isPrinterOnline :: "socket_event list \<Rightarrow> probe" where
  "isPrinterOnline events = foldl isPrinterOnline_on probe_start events"

subsection \<open>Notions the auth claims are stated in\<close>

definition reply_status :: "auth_outcome \<Rightarrow> nat option" where
  "reply_status out = (case out of Next c \<Rightarrow> None | Reply r \<Rightarrow> Some (status r))"

text \<open>The client the gate of \<^verbatim>\<open>part_000\<close> looks at: the first stored one with the id.\<close>

definition client_by_id :: "client list \<Rightarrow> string option \<Rightarrow> client option" where
  "client_by_id clients cid = find (\<lambda>c. Some (c_id c) = cid) clients"

subsection \<open>Notions the registry claims are stated in\<close>

text \<open>
  \<open>role_count\<close> is the count the code takes (every stored record with the role);
  \<open>enabled_role_count\<close> is the count the specification describes (enabled records only).
\<close>

definition role_count :: "printer list \<Rightarrow> string \<Rightarrow> nat" where
  "role_count printers r = length (filter (\<lambda>x. p_role x = r) printers)"

definition enabled_role_count :: "printer list \<Rightarrow> string \<Rightarrow> nat" where
  "enabled_role_count printers r = length (filter (\<lambda>x. p_enabled x \<and> p_role x = r) printers)"


definition has_id :: "printer list \<Rightarrow> string \<Rightarrow> bool" where
  "has_id printers i = (find (\<lambda>x. p_id x = i) printers \<noteq> None)"

definition first_index :: "printer list \<Rightarrow> string \<Rightarrow> nat" where
  "first_index printers i = nat (findIndex (\<lambda>x. p_id x = i) printers)"

definition others :: "string \<Rightarrow> printer list \<Rightarrow> printer list" where
  "others i printers = filter (\<lambda>x. p_id x \<noteq> i) printers"

text \<open>Concrete records for the examples.\<close>

definition demo_printer :: "string \<Rightarrow> string \<Rightarrow> bool \<Rightarrow> printer" where
  "demo_printer i r en =
     \<lparr>p_id = i, p_name = Some i, p_role = r,
      p_connection = \<lparr>ip = ''192.168.1.50'', port = 9100\<rparr>, p_enabled = en\<rparr>"

definition demo_env_printer :: "string \<Rightarrow> string \<Rightarrow> string \<Rightarrow> env_printer" where
  "demo_env_printer i r st =
     \<lparr>e_id = i, e_role = Some r, e_status = Some st, e_ip = Some ''192.168.1.50'',
      e_port = Some ''9100'', e_cut = Some ''true''\<rparr>"

section \<open>Facts about the registry operations\<close>

lemma findIndex_none: "find P xs = None \<Longrightarrow> findIndex P xs = - 1"
  by (induction xs) (auto simp: Let_def split: if_splits)

lemma findIndex_range: "- 1 \<le> findIndex P xs \<and> findIndex P xs < int (length xs)"
  by (induction xs) (auto simp: Let_def)

lemma findIndex_some:
  "find P xs \<noteq> None \<Longrightarrow>
     0 \<le> findIndex P xs \<and> nat (findIndex P xs) < length xs \<and>
     P (xs ! nat (findIndex P xs)) \<and>
     (\<forall>j < nat (findIndex P xs). \<not> P (xs ! j))"
proof (induction xs)
  case Nil
  then show ?case by simp
next
  case (Cons x xs)
  show ?case
  proof (cases "P x")
    case True
    then show ?thesis by simp
  next
    case False
    with Cons.prems have "find P xs \<noteq> None" by simp
    from Cons.IH [OF this] have ih:
      "0 \<le> findIndex P xs" "nat (findIndex P xs) < length xs"
      "P (xs ! nat (findIndex P xs))" "\<forall>j < nat (findIndex P xs). \<not> P (xs ! j)"
      by simp_all
    have idx: "findIndex P (x # xs) = findIndex P xs + 1"
      using False ih(1) by (simp add: Let_def)
    have n: "nat (findIndex P xs + 1) = Suc (nat (findIndex P xs))"
      using ih(1) by simp
    show ?thesis
      unfolding idx n using ih False
      by (auto simp: nth_Cons split: nat.splits)
  qed
qed

lemma find_update_first:
  "find P xs \<noteq> None \<Longrightarrow> P v \<Longrightarrow> find P (xs[nat (findIndex P xs) := v]) = Some v"
proof (induction xs)
  case Nil
  then show ?case by simp
next
  case (Cons x xs)
  show ?case
  proof (cases "P x")
    case True
    with Cons.prems show ?thesis by simp
  next
    case False
    with Cons.prems have f: "find P xs \<noteq> None" by simp
    have "0 \<le> findIndex P xs" using findIndex_some [OF f] by simp
    then have n: "nat (findIndex P (x # xs)) = Suc (nat (findIndex P xs))"
      using False by (simp add: Let_def)
    show ?thesis unfolding n using False Cons.IH [OF f Cons.prems(2)] by simp
  qed
qed

lemma filter_update_other:
  "\<not> Q v \<Longrightarrow> i < length xs \<Longrightarrow> \<not> Q (xs ! i) \<Longrightarrow> filter Q (xs[i := v]) = filter Q xs"
proof (induction xs arbitrary: i)
  case Nil
  then show ?case by simp
next
  case (Cons x xs)
  then show ?case by (cases i) auto
qed


lemma update_existing_lookup: "map_of (AList.update k v xs) k = Some v"
  by (simp add: AList.update_conv')

lemma server_save_existing:
  assumes "has_id printers (p_id p)"
  shows "server_printer_save printers p =
           (success_reply, Some (printers[first_index printers (p_id p) := p]))"
proof -
  from assms have f: "find (\<lambda>x. p_id x = p_id p) printers \<noteq> None"
    by (simp add: has_id_def)
  from findIndex_some [OF f] have "0 \<le> findIndex (\<lambda>x. p_id x = p_id p) printers" by simp
  with f show ?thesis
    by (auto simp: server_printer_save_def Let_def assign_at_def first_index_def)
qed

lemma server_save_new:
  assumes "\<not> has_id printers (p_id p)"
  shows "server_printer_save printers p =
          (if p_role p = ''CASHIER'' \<and> 3 \<le> role_count printers ''CASHIER''
           then (error_reply 400 ''Max Cashier printers reached'', None)
           else if p_role p = ''KITCHEN'' \<and> 3 \<le> role_count printers ''KITCHEN''
           then (error_reply 400 ''Max Kitchen printers reached'', None)
           else (success_reply, Some (printers @ [p])))"
  using assms by (simp add: server_printer_save_def has_id_def role_count_def Let_def)

lemma first_index_facts:
  assumes "has_id printers i"
  shows "first_index printers i < length printers"
    and "p_id (printers ! first_index printers i) = i"
    and "\<forall>j < first_index printers i. p_id (printers ! j) \<noteq> i"
proof -
  from assms have f: "find (\<lambda>x. p_id x = i) printers \<noteq> None"
    by (simp add: has_id_def)
  from findIndex_some [OF f] show "first_index printers i < length printers"
    and "p_id (printers ! first_index printers i) = i"
    and "\<forall>j < first_index printers i. p_id (printers ! j) \<noteq> i"
    by (simp_all add: first_index_def)
qed

lemma others_update:
  assumes "has_id printers (p_id p)"
  shows "others (p_id p) (printers[first_index printers (p_id p) := p]) = others (p_id p) printers"
  unfolding others_def
  using first_index_facts(1,2) [OF assms]
  by (intro filter_update_other) simp_all

lemma others_append: "others (p_id p) (printers @ [p]) = others (p_id p) printers"
  by (simp add: others_def)

lemma stable_save_eq:
  "stable_printer_save printers p =
     (success_reply,
      Some (if has_id printers (p_id p) then printers[first_index printers (p_id p) := p]
            else printers @ [p]))"
proof (cases "has_id printers (p_id p)")
  case True
  then have f: "find (\<lambda>x. p_id x = p_id p) printers \<noteq> None" by (simp add: has_id_def)
  from findIndex_some [OF f] have "0 \<le> findIndex (\<lambda>x. p_id x = p_id p) printers" by simp
  with True show ?thesis
    by (auto simp: stable_printer_save_def Let_def assign_at_def first_index_def)
next
  case False
  then have "findIndex (\<lambda>x. p_id x = p_id p) printers = - 1"
    by (simp add: has_id_def findIndex_none)
  with False show ?thesis by (simp add: stable_printer_save_def Let_def)
qed

section \<open>Claims about the printer registry\<close>




text \<open>
  Claim C2. Saving a record whose id is already stored replaces the stored record,
  whatever the roles in the registry: the handler answers success, writes the
  collection with the supplied record at the position of the first record with that
  id, and a lookup by the id in the written collection yields the supplied record.
  In the \<^verbatim>\<open>printer.env\<close> variant the value under the key is replaced likewise.
\<close>

theorem upsert_existing_replaces:
  "(has_id printers (p_id p) \<longrightarrow>
      server_printer_save printers p =
        (success_reply, Some (printers[first_index printers (p_id p) := p])) \<and>
      first_index printers (p_id p) < length printers \<and>
      p_id (printers ! first_index printers (p_id p)) = p_id p \<and>
      printers[first_index printers (p_id p) := p] ! first_index printers (p_id p) = p \<and>
      find (\<lambda>x. p_id x = p_id p) (printers[first_index printers (p_id p) := p]) = Some p) \<and>
   (map_of eprinters (e_id b) \<noteq> None \<longrightarrow>
      env_printer_save eprinters b = (ok_reply, Some (AList.update (e_id b) b eprinters)) \<and>
      map_of (AList.update (e_id b) b eprinters) (e_id b) = Some b)"
proof (intro conjI impI)
  assume h: "has_id printers (p_id p)"
  show "server_printer_save printers p =
        (success_reply, Some (printers[first_index printers (p_id p) := p]))"
    by (rule server_save_existing [OF h])
  show lt: "first_index printers (p_id p) < length printers"
    by (rule first_index_facts(1) [OF h])
  show "p_id (printers ! first_index printers (p_id p)) = p_id p"
    by (rule first_index_facts(2) [OF h])
  show "printers[first_index printers (p_id p) := p] ! first_index printers (p_id p) = p"
    using lt by simp
  from h have f: "find (\<lambda>x. p_id x = p_id p) printers \<noteq> None"
    by (simp add: has_id_def)
  show "find (\<lambda>x. p_id x = p_id p) (printers[first_index printers (p_id p) := p]) = Some p"
    unfolding first_index_def by (rule find_update_first [OF f]) simp
next
  assume "map_of eprinters (e_id b) \<noteq> None"
  then show "env_printer_save eprinters b = (ok_reply, Some (AList.update (e_id b) b eprinters))"
    by (auto simp: env_printer_save_def env_missing_def Let_def)
  show "map_of (AList.update (e_id b) b eprinters) (e_id b) = Some b"
    by (rule update_existing_lookup)
qed

text \<open>
  The theorem at a registry that already holds three enabled CASHIER printers: the
  update of one of them goes through.
\<close>

theorem upsert_existing_replaces_witness:
  "has_id [demo_printer ''c1'' ''CASHIER'' True, demo_printer ''c2'' ''CASHIER'' True,
           demo_printer ''c3'' ''CASHIER'' True] (p_id (demo_printer ''c2'' ''CASHIER'' False)) \<and>
   3 \<le> enabled_role_count [demo_printer ''c1'' ''CASHIER'' True, demo_printer ''c2'' ''CASHIER'' True,
           demo_printer ''c3'' ''CASHIER'' True] ''CASHIER'' \<and>
   server_printer_save [demo_printer ''c1'' ''CASHIER'' True, demo_printer ''c2'' ''CASHIER'' True,
           demo_printer ''c3'' ''CASHIER'' True] (demo_printer ''c2'' ''CASHIER'' False) =
     (success_reply, Some [demo_printer ''c1'' ''CASHIER'' True, demo_printer ''c2'' ''CASHIER'' False,
           demo_printer ''c3'' ''CASHIER'' True]) \<and>
   map_of [(''c1'', demo_env_printer ''c1'' ''CASHIER'' ''enabled''),
           (''c2'', demo_env_printer ''c2'' ''CASHIER'' ''enabled''),
           (''c3'', demo_env_printer ''c3'' ''CASHIER'' ''enabled'')]
          (e_id (demo_env_printer ''c1'' ''CASHIER'' ''disabled'')) \<noteq> None \<and>
   env_printer_save [(''c1'', demo_env_printer ''c1'' ''CASHIER'' ''enabled''),
           (''c2'', demo_env_printer ''c2'' ''CASHIER'' ''enabled''),
           (''c3'', demo_env_printer ''c3'' ''CASHIER'' ''enabled'')]
          (demo_env_printer ''c1'' ''CASHIER'' ''disabled'') =
     (ok_reply, Some [(''c1'', demo_env_printer ''c1'' ''CASHIER'' ''disabled''),
           (''c2'', demo_env_printer ''c2'' ''CASHIER'' ''enabled''),
           (''c3'', demo_env_printer ''c3'' ''CASHIER'' ''enabled'')])"
proof -
  let ?reg = "[demo_printer ''c1'' ''CASHIER'' True, demo_printer ''c2'' ''CASHIER'' True,
               demo_printer ''c3'' ''CASHIER'' True]"
  let ?p = "demo_printer ''c2'' ''CASHIER'' False"
  let ?ereg = "[(''c1'', demo_env_printer ''c1'' ''CASHIER'' ''enabled''),
           (''c2'', demo_env_printer ''c2'' ''CASHIER'' ''enabled''),
           (''c3'', demo_env_printer ''c3'' ''CASHIER'' ''enabled'')]"
  let ?b = "demo_env_printer ''c1'' ''CASHIER'' ''disabled''"
  have h: "has_id ?reg (p_id ?p)"
    by (simp add: has_id_def demo_printer_def)
  have i: "first_index ?reg (p_id ?p) = 1"
    by (simp add: first_index_def demo_printer_def)
  have c: "3 \<le> enabled_role_count ?reg ''CASHIER''"
    by (simp add: enabled_role_count_def demo_printer_def)
  have m: "map_of ?ereg (e_id ?b) \<noteq> None"
    by (simp add: demo_env_printer_def)
  have u: "AList.update (e_id ?b) ?b ?ereg =
      [(''c1'', ?b), (''c2'', demo_env_printer ''c2'' ''CASHIER'' ''enabled''),
       (''c3'', demo_env_printer ''c3'' ''CASHIER'' ''enabled'')]"
    by (simp add: demo_env_printer_def)
  from upsert_existing_replaces [of ?reg ?p ?ereg ?b] h i c m u
  show ?thesis by simp
qed

text \<open>
  Claim C10. A save or delete leaves every record with another id as it was and in
  the same order (\<open>others\<close>): an upsert of a stored id writes the record at the position
  of the first record with that id, a save of a new id that is written appends at the
  end, and a delete writes the collection without the records of the given id. For
  \<^verbatim>\<open>src/server.js\<close> and \<^verbatim>\<open>src/unnamed/part_000\<close>.
\<close>

theorem registry_frame:
  "(\<forall>w. snd (server_printer_save printers p) = Some w \<longrightarrow>
      others (p_id p) w = others (p_id p) printers \<and>
      (has_id printers (p_id p) \<longrightarrow>
         w = printers[first_index printers (p_id p) := p] \<and>
         first_index printers (p_id p) < length printers \<and>
         p_id (printers ! first_index printers (p_id p)) = p_id p) \<and>
      (\<not> has_id printers (p_id p) \<longrightarrow> w = printers @ [p])) \<and>
   (\<exists>w. stable_printer_save printers p = (success_reply, Some w) \<and>
      others (p_id p) w = others (p_id p) printers \<and>
      (has_id printers (p_id p) \<longrightarrow>
         w = printers[first_index printers (p_id p) := p] \<and>
         first_index printers (p_id p) < length printers \<and>
         p_id (printers ! first_index printers (p_id p)) = p_id p) \<and>
      (\<not> has_id printers (p_id p) \<longrightarrow> w = printers @ [p])) \<and>
   server_printer_delete printers i = (success_reply, Some (others i printers)) \<and>
   stable_printer_delete printers i = (success_reply, Some (others i printers))"
proof (intro conjI allI impI)
  fix w
  assume w: "snd (server_printer_save printers p) = Some w"
  show "others (p_id p) w = others (p_id p) printers"
  proof (cases "has_id printers (p_id p)")
    case True
    with w have "w = printers[first_index printers (p_id p) := p]"
      by (simp add: server_save_existing)
    with True show ?thesis by (simp add: others_update)
  next
    case False
    with w show ?thesis
      by (auto simp: server_save_new others_append split: if_splits)
  qed
  {
    assume h: "has_id printers (p_id p)"
    with w show "w = printers[first_index printers (p_id p) := p]"
      by (simp add: server_save_existing)
    show "first_index printers (p_id p) < length printers"
      by (rule first_index_facts(1) [OF h])
    show "p_id (printers ! first_index printers (p_id p)) = p_id p"
      by (rule first_index_facts(2) [OF h])
  }
  {
    assume "\<not> has_id printers (p_id p)"
    with w show "w = printers @ [p]"
      by (auto simp: server_save_new split: if_splits)
  }
next
  show "\<exists>w. stable_printer_save printers p = (success_reply, Some w) \<and>
      others (p_id p) w = others (p_id p) printers \<and>
      (has_id printers (p_id p) \<longrightarrow>
         w = printers[first_index printers (p_id p) := p] \<and>
         first_index printers (p_id p) < length printers \<and>
         p_id (printers ! first_index printers (p_id p)) = p_id p) \<and>
      (\<not> has_id printers (p_id p) \<longrightarrow> w = printers @ [p])"
  proof (cases "has_id printers (p_id p)")
    case True
    have "stable_printer_save printers p =
            (success_reply, Some (printers[first_index printers (p_id p) := p]))"
      using True by (simp add: stable_save_eq)
    moreover have "others (p_id p) (printers[first_index printers (p_id p) := p]) =
            others (p_id p) printers"
      by (rule others_update [OF True])
    moreover have "first_index printers (p_id p) < length printers"
      by (rule first_index_facts(1) [OF True])
    moreover have "p_id (printers ! first_index printers (p_id p)) = p_id p"
      by (rule first_index_facts(2) [OF True])
    ultimately show ?thesis using True by blast
  next
    case False
    have "stable_printer_save printers p = (success_reply, Some (printers @ [p]))"
      using False by (simp add: stable_save_eq)
    moreover have "others (p_id p) (printers @ [p]) = others (p_id p) printers"
      by (rule others_append)
    ultimately show ?thesis using False by blast
  qed
next
  show "server_printer_delete printers i = (success_reply, Some (others i printers))"
    by (simp add: server_printer_delete_def others_def)
  show "stable_printer_delete printers i = (success_reply, Some (others i printers))"
    by (simp add: stable_printer_delete_def others_def)
qed

text \<open>The theorem at an upsert of the middle record of three, and at its deletion.\<close>

theorem registry_frame_witness:
  "snd (server_printer_save [demo_printer ''a'' ''BAR'' True, demo_printer ''b'' ''BAR'' True,
          demo_printer ''c'' ''BAR'' True] (demo_printer ''b'' ''KITCHEN'' False)) =
     Some [demo_printer ''a'' ''BAR'' True, demo_printer ''b'' ''KITCHEN'' False,
          demo_printer ''c'' ''BAR'' True] \<and>
   others ''b'' [demo_printer ''a'' ''BAR'' True, demo_printer ''b'' ''KITCHEN'' False,
          demo_printer ''c'' ''BAR'' True] = [demo_printer ''a'' ''BAR'' True, demo_printer ''c'' ''BAR'' True] \<and>
   others ''b'' [demo_printer ''a'' ''BAR'' True, demo_printer ''b'' ''BAR'' True,
          demo_printer ''c'' ''BAR'' True] = [demo_printer ''a'' ''BAR'' True, demo_printer ''c'' ''BAR'' True] \<and>
   server_printer_delete [demo_printer ''a'' ''BAR'' True, demo_printer ''b'' ''BAR'' True,
          demo_printer ''c'' ''BAR'' True] ''b'' =
     (success_reply, Some [demo_printer ''a'' ''BAR'' True, demo_printer ''c'' ''BAR'' True])"
proof -
  let ?reg = "[demo_printer ''a'' ''BAR'' True, demo_printer ''b'' ''BAR'' True,
          demo_printer ''c'' ''BAR'' True]"
  let ?p = "demo_printer ''b'' ''KITCHEN'' False"
  have h: "has_id ?reg (p_id ?p)"
    by (simp add: has_id_def demo_printer_def)
  have i: "first_index ?reg (p_id ?p) = 1"
    by (simp add: first_index_def demo_printer_def)
  have s: "snd (server_printer_save ?reg ?p) = Some (?reg[1 := ?p])"
    by (simp add: server_printer_save_def has_id_def demo_printer_def assign_at_def)
  have o: "others ''b'' ?reg = [demo_printer ''a'' ''BAR'' True, demo_printer ''c'' ''BAR'' True]"
    by (simp add: others_def demo_printer_def)
  have pid: "p_id ?p = ''b''" by (simp add: demo_printer_def)
  have d: "server_printer_delete ?reg ''b'' = (success_reply, Some (others ''b'' ?reg))"
    using registry_frame [of ?reg ?p "''b''"] by blast
  have u: "?reg[1 := ?p] = [demo_printer ''a'' ''BAR'' True, ?p, demo_printer ''c'' ''BAR'' True]"
    by simp
  have f: "others (p_id ?p) (?reg[1 := ?p]) = others (p_id ?p) ?reg"
    using registry_frame [of ?reg ?p "''b''"] s by blast
  show ?thesis
    unfolding d using s f o by (simp only: u pid simp_thms)
qed

subsection \<open>Decimal digits and the minted pin\<close>







section \<open>Claims about the auth gate and the client registration\<close>

lemma find_SomeD: "find P xs = Some x \<Longrightarrow> x \<in> set xs \<and> P x"
  by (induction xs) (auto split: if_splits)

lemma authRequired_present:
  assumes "\<not> falsy_header cid" "\<not> falsy_header key"
  shows "authRequired True clients cid key =
     (case client_by_id clients cid of
        None \<Rightarrow> Reply (error_reply 403 ''Client not allowed'')
      | Some c \<Rightarrow>
          if c_enabled c \<noteq> Some True then Reply (error_reply 403 ''Client not allowed'')
          else if Some (c_pin c) \<noteq> key then Reply (error_reply 403 ''Invalid Print Key'')
          else Next (Some c))"
  using assms by (auto simp: authRequired_def client_by_id_def falsy_flag_def split: option.splits)

lemma authRequired_missing:
  assumes "falsy_header cid \<or> falsy_header key"
  shows "authRequired True clients cid key = Reply (error_reply 401 ''Client ID / Print Key missing'')"
  using assms by (auto simp: authRequired_def)

lemma error_reply_status [simp]: "status (error_reply s m) = s"
  by (simp add: error_reply_def)

lemma error_reply_eq [simp]: "error_reply s m = error_reply s' m' \<longleftrightarrow> s = s' \<and> m = m'"
  by (simp add: error_reply_def)

text \<open>
  Claim C3, as the code has it. With the flag off both gates let every request through.
  With the flag on, \<^verbatim>\<open>authRequired\<close> of \<^verbatim>\<open>part_000\<close> answers 401 exactly when the client id
  or the key is missing or empty; otherwise it answers 403 exactly when no stored client
  has the id, or the first such client is not enabled, or its pin differs from the key.
  The three cases share the status 403, but the message tells a wrong key
  ("Invalid Print Key") from an unknown or disabled client ("Client not allowed").
  \<^verbatim>\<open>authCheck\<close> of \<^verbatim>\<open>src/server.js\<close> answers 401 "Unauthorized" for every failure: it
  succeeds exactly when some stored client has the id, the key as pin, and is enabled.
\<close>

theorem auth_gate_outcomes:
  "authRequired False clients cid key = Next None \<and>
   authCheck False clients cid key = (True, None) \<and>
   (reply_status (authRequired True clients cid key) = Some 401 \<longleftrightarrow>
      falsy_header cid \<or> falsy_header key) \<and>
   (\<not> falsy_header cid \<and> \<not> falsy_header key \<longrightarrow>
      (reply_status (authRequired True clients cid key) = Some 403 \<longleftrightarrow>
         client_by_id clients cid = None \<or>
         (\<exists>c. client_by_id clients cid = Some c \<and> (c_enabled c \<noteq> Some True \<or> Some (c_pin c) \<noteq> key))) \<and>
      (authRequired True clients cid key = Reply (error_reply 403 ''Invalid Print Key'') \<longleftrightarrow>
         (\<exists>c. client_by_id clients cid = Some c \<and> c_enabled c = Some True \<and> Some (c_pin c) \<noteq> key)) \<and>
      (authRequired True clients cid key = Reply (error_reply 403 ''Client not allowed'') \<longleftrightarrow>
         client_by_id clients cid = None \<or>
         (\<exists>c. client_by_id clients cid = Some c \<and> c_enabled c \<noteq> Some True)) \<and>
      (\<forall>c. client_by_id clients cid = Some c \<and> c_enabled c = Some True \<and> Some (c_pin c) = key \<longrightarrow>
         authRequired True clients cid key = Next (Some c))) \<and>
   (authCheck True clients cid key = (True, None) \<or>
    authCheck True clients cid key = (False, Some (error_reply 401 ''Unauthorized''))) \<and>
   (authCheck True clients cid key = (True, None) \<longleftrightarrow>
      (\<exists>c \<in> set clients. Some (c_id c) = cid \<and> Some (c_pin c) = key \<and> c_enabled c = Some True))"
proof (intro conjI impI)
  show "authRequired False clients cid key = Next None"
    by (simp add: authRequired_def)
  show "authCheck False clients cid key = (True, None)"
    by (simp add: authCheck_def)
  show "reply_status (authRequired True clients cid key) = Some 401 \<longleftrightarrow>
      falsy_header cid \<or> falsy_header key"
  proof (cases "falsy_header cid \<or> falsy_header key")
    case True
    then show ?thesis by (simp add: authRequired_missing reply_status_def)
  next
    case False
    then show ?thesis
      by (auto simp: authRequired_present reply_status_def split: option.splits)
  qed
  show "authCheck True clients cid key = (True, None) \<or>
    authCheck True clients cid key = (False, Some (error_reply 401 ''Unauthorized''))"
    by (simp add: authCheck_def split: option.splits)
  show "authCheck True clients cid key = (True, None) \<longleftrightarrow>
      (\<exists>c \<in> set clients. Some (c_id c) = cid \<and> Some (c_pin c) = key \<and> c_enabled c = Some True)"
    by (auto simp: authCheck_def falsy_flag_def find_None_iff split: option.splits dest: find_SomeD)
next
  assume p: "\<not> falsy_header cid \<and> \<not> falsy_header key"
  then have e: "authRequired True clients cid key =
     (case client_by_id clients cid of
        None \<Rightarrow> Reply (error_reply 403 ''Client not allowed'')
      | Some c \<Rightarrow>
          if c_enabled c \<noteq> Some True then Reply (error_reply 403 ''Client not allowed'')
          else if Some (c_pin c) \<noteq> key then Reply (error_reply 403 ''Invalid Print Key'')
          else Next (Some c))"
    by (simp add: authRequired_present)
  show "reply_status (authRequired True clients cid key) = Some 403 \<longleftrightarrow>
         client_by_id clients cid = None \<or>
         (\<exists>c. client_by_id clients cid = Some c \<and> (c_enabled c \<noteq> Some True \<or> Some (c_pin c) \<noteq> key))"
    unfolding e by (auto simp: reply_status_def split: option.splits)
  show "authRequired True clients cid key = Reply (error_reply 403 ''Invalid Print Key'') \<longleftrightarrow>
         (\<exists>c. client_by_id clients cid = Some c \<and> c_enabled c = Some True \<and> Some (c_pin c) \<noteq> key)"
    unfolding e by (auto split: option.splits)
  show "authRequired True clients cid key = Reply (error_reply 403 ''Client not allowed'') \<longleftrightarrow>
         client_by_id clients cid = None \<or>
         (\<exists>c. client_by_id clients cid = Some c \<and> c_enabled c \<noteq> Some True)"
    unfolding e by (auto split: option.splits)
  show "\<forall>c. client_by_id clients cid = Some c \<and> c_enabled c = Some True \<and> Some (c_pin c) = key \<longrightarrow>
         authRequired True clients cid key = Next (Some c)"
    unfolding e by auto
qed

text \<open>
  The theorem at one enabled client and a request with its id and pin: the request passes.
\<close>

theorem auth_gate_outcomes_witness:
  "\<not> falsy_header (Some ''clt-a1b2c3'') \<and> \<not> falsy_header (Some ''123456'') \<and>
   client_by_id [demo_client ''clt-a1b2c3'' ''123456'' True] (Some ''clt-a1b2c3'') =
     Some (demo_client ''clt-a1b2c3'' ''123456'' True) \<and>
   authRequired True [demo_client ''clt-a1b2c3'' ''123456'' True] (Some ''clt-a1b2c3'') (Some ''123456'') =
     Next (Some (demo_client ''clt-a1b2c3'' ''123456'' True))"
proof -
  let ?c = "demo_client ''clt-a1b2c3'' ''123456'' True"
  have h: "\<not> falsy_header (Some ''clt-a1b2c3'') \<and> \<not> falsy_header (Some ''123456'')"
    by (simp add: falsy_header_def)
  have f: "client_by_id [?c] (Some ''clt-a1b2c3'') = Some ?c"
    by (simp add: client_by_id_def demo_client_def)
  have g: "c_enabled ?c = Some True \<and> Some (c_pin ?c) = Some ''123456''"
    by (simp add: demo_client_def)
  have "authRequired True [?c] (Some ''clt-a1b2c3'') (Some ''123456'') = Next (Some ?c)"
    using auth_gate_outcomes [of "[?c]" "Some ''clt-a1b2c3''" "Some ''123456''"] h f g by blast
  with h f show ?thesis by blast
qed

text \<open>
  Claim C3 as stated fails. In \<^verbatim>\<open>part_000\<close> a wrong key for a known, enabled client and
  an unknown client id get different responses, so the response tells which condition
  failed; and in \<^verbatim>\<open>src/server.js\<close> a correct client id with a wrong key is answered 401,
  not 403.
\<close>

theorem auth_gate_leaks_counterexample:
  "authRequired True [demo_client ''clt-a1b2c3'' ''123456'' True] (Some ''clt-a1b2c3'') (Some ''000000'') =
     Reply (Response 403 (JObj [(''error'', JStr ''Invalid Print Key'')])) \<and>
   authRequired True [demo_client ''clt-a1b2c3'' ''123456'' True] (Some ''clt-ffffff'') (Some ''000000'') =
     Reply (Response 403 (JObj [(''error'', JStr ''Client not allowed'')])) \<and>
   authRequired True [demo_client ''clt-a1b2c3'' ''123456'' True] (Some ''clt-a1b2c3'') (Some ''000000'') \<noteq>
   authRequired True [demo_client ''clt-a1b2c3'' ''123456'' True] (Some ''clt-ffffff'') (Some ''000000'') \<and>
   authCheck True [demo_client ''clt-a1b2c3'' ''123456'' True] (Some ''clt-a1b2c3'') (Some ''000000'') =
     (False, Some (Response 401 (JObj [(''error'', JStr ''Unauthorized'')])))"
  by (simp add: authRequired_def authCheck_def falsy_header_def falsy_flag_def demo_client_def
      error_reply_def)











section \<open>Facts about \<^verbatim>\<open>toFixed\<close> and the loop over the line items\<close>










section \<open>Claim about the invoice rows\<close>




section \<open>Claim about printer resolution\<close>






section \<open>Claims about the dispatch result, the stored files and the probe\<close>

lemma env_print_enabled:
  "map_of printers k = Some p \<Longrightarrow> e_status p = Some ''enabled'' \<Longrightarrow> k \<noteq> [] \<Longrightarrow>
     fst (env_print rt printers (Some k) dflt body) = ok_reply"
  by (simp add: env_print_def falsy_header_def)

text \<open>
  Claim C6 does not hold of the \<^verbatim>\<open>printer.env\<close> variant (\<^verbatim>\<open>src/core/server.js\<close>, lines 357
  to 364 and 461 to 471). The handler starts the connection and answers \<^verbatim>\<open>{ok: true}\<close> at
  once: the response is a function of the registry, the header and the body alone, so a
  refused connection, a timeout or a failed write cannot change it. Here the route is
  evaluated for an enabled printer; whatever happens to the connection afterwards, the
  caller has been told \<^verbatim>\<open>ok\<close>.
\<close>

theorem env_print_reports_ok_before_transport:
  "env_print demo_runtime [(''K1'', demo_env_printer ''K1'' ''KITCHEN'' ''enabled'')] (Some ''K1'') None
     (JObj [(''text'', JStr ''order 42'')]) =
     (Response 200 (JObj [(''ok'', JBool True)]),
      Some \<lparr>job_port = Some ''9100'', job_ip = Some ''192.168.1.50'',
            on_connect = [Write (''order 42'' @ [CHR 0x0A, CHR 0x0A]),
                          Write [CHR 0x1D, CHR 0x56, CHR 0x00], End]\<rparr>)"
  by (simp add: env_print_def falsy_header_def demo_env_printer_def ok_reply_def rawPrint_def
      or_else_def)

lemma safeRead_fallback:
  "f = Absent \<or> f = Unreadable \<or> (\<exists>s. f = Content s \<and> (trim s = [] \<or> parse (trim s) = None)) \<Longrightarrow>
     safeRead parse f fallback = fallback"
  by (auto simp: safeRead_def Let_def)

lemma core_safeRead_fallback:
  "f = Absent \<or> f = Unreadable \<or> (\<exists>s. f = Content s \<and> parse s = None) \<Longrightarrow>
     core_safeRead parse f fallback = fallback"
  by (auto simp: core_safeRead_def)

text \<open>
  The loaders that read through \<^verbatim>\<open>safeRead\<close> return the empty collection for a file
  that is absent, unreadable, blank or not parseable, whatever the parser; the readers
  of \<^verbatim>\<open>src/server.js\<close> return an error for each of them.
\<close>

lemma server_read_fails:
  assumes "f = Absent \<or> f = Unreadable \<or> (\<exists>s. f = Content s \<and> parse s = None)"
  shows "\<exists>e. server_readPrinters parse f = Inl e" and "\<exists>e. server_readClients parse f = Inl e"
  using assms by (auto simp: server_readPrinters_def server_readClients_def)

lemma safe_loaders_default:
  assumes "f = Absent \<or> f = Unreadable \<or> (\<exists>s. f = Content s \<and> (trim s = [] \<or> parse (trim s) = None))"
  shows "stable_loadPrinters parse f = Inr (Some (JArr []))"
    and "stable_loadClients parse f = Inr (Some (JArr []))"
  using safeRead_fallback [OF assms]
  by (simp_all add: stable_loadPrinters_def stable_loadClients_def Let_def)

lemma core_loaders_default:
  assumes "f = Absent \<or> f = Unreadable \<or> (\<exists>s. f = Content s \<and> parse s = None)"
  shows "core_loadPrinters parse f = Inr (JArr [])"
    and "core_loadClients parse f = JArr []"
  using core_safeRead_fallback [OF assms]
  by (simp_all add: core_loadPrinters_def core_loadClients_def Let_def or_else_def)

text \<open>
  Claim C7 does not hold of \<^verbatim>\<open>src/server.js\<close> (lines 41 to 44): \<^verbatim>\<open>readPrinters\<close> and
  \<^verbatim>\<open>readClients\<close> parse the file with no handler around the read, so a file that is
  absent (removed after start-up), empty or malformed makes the list operation throw
  instead of returning the empty collection. Evaluated here with a parser that accepts
  neither the empty text nor \<^verbatim>\<open>{\<close>.
\<close>

theorem server_read_propagates_errors:
  "server_readPrinters demo_parse Absent = Inl FsError \<and>
   server_readPrinters demo_parse (Content []) = Inl SyntaxError \<and>
   server_readPrinters demo_parse (Content ''{'') = Inl SyntaxError \<and>
   server_readClients demo_parse Absent = Inl FsError \<and>
   server_readClients demo_parse (Content []) = Inl SyntaxError \<and>
   server_readClients demo_parse (Content ''{'') = Inl SyntaxError \<and>
   stable_loadPrinters demo_parse (Content ''{'') = Inr (Some (JArr [])) \<and>
   core_loadPrinters demo_parse (Content ''{'') = Inr (JArr [])"
  by (simp add: server_readPrinters_def server_readClients_def demo_parse_def
      stable_loadPrinters_def core_loadPrinters_def safeRead_def core_safeRead_def trim_def
      is_js_space_def or_else_def)

lemma resolve_keeps: "settled st \<noteq> None \<Longrightarrow> settled (resolve v st) = settled st"
  by (simp add: resolve_def)

lemma core_probe_step_keeps:
  "settled st \<noteq> None \<Longrightarrow> settled (core_isPrinterOnline_on st e) = settled st"
  by (cases e) (auto simp: resolve_def)

lemma probe_step_keeps:
  "settled st \<noteq> None \<Longrightarrow> settled (isPrinterOnline_on st e) = settled st"
  by (cases e) (auto simp: resolve_def)

text \<open>Once the promise is settled, no later event changes its value.\<close>

lemma core_probe_settles_once:
  "settled (foldl core_isPrinterOnline_on st es) = Some v \<Longrightarrow>
     settled (foldl core_isPrinterOnline_on st (es @ later)) = Some v"
proof (induction later rule: rev_induct)
  case Nil
  then show ?case by simp
next
  case (snoc e later)
  then have "settled (foldl core_isPrinterOnline_on st (es @ later)) \<noteq> None" by simp
  from core_probe_step_keeps [OF this, of e] snoc show ?case by simp
qed

lemma probe_settles_once:
  "settled (foldl isPrinterOnline_on st es) = Some v \<Longrightarrow>
     settled (foldl isPrinterOnline_on st (es @ later)) = Some v"
proof (induction later rule: rev_induct)
  case Nil
  then show ?case by simp
next
  case (snoc e later)
  then have "settled (foldl isPrinterOnline_on st (es @ later)) \<noteq> None" by simp
  from probe_step_keeps [OF this, of e] snoc show ?case by simp
qed

text \<open>
  Claim C4 does not hold of \<^verbatim>\<open>isPrinterOnline\<close> in \<^verbatim>\<open>src/core/server.js\<close> (lines 98 to
  110). When the socket emits \<^verbatim>\<open>timeout\<close>, the listener settles the promise with
  \<^verbatim>\<open>false\<close> and leaves the socket alone: the result is known and the probe has not
  closed the socket (a timeout on a socket does not close it). The connect listener of
  the same function does destroy the socket, and so does the timeout listener of
  \<^verbatim>\<open>src/unnamed/part_000\<close>, whose promise then settles on \<^verbatim>\<open>close\<close>.
\<close>

theorem core_probe_timeout_leaves_socket_open:
  "settled (core_isPrinterOnline [Timeout]) = Some False \<and>
   destroyed (core_isPrinterOnline [Timeout]) = False \<and>
   settled (core_isPrinterOnline [Connect]) = Some True \<and>
   destroyed (core_isPrinterOnline [Connect]) = True \<and>
   destroyed (isPrinterOnline [Timeout]) = True \<and>
   settled (isPrinterOnline [Timeout, Close]) = Some False \<and>
   settled (isPrinterOnline [Connect, Close]) = Some True"
  by (simp add: core_isPrinterOnline_def isPrinterOnline_def probe_start_def resolve_def)

text \<open>
  The routes that await \<^verbatim>\<open>execute\<close> never answer 200 when it rejects.
\<close>

lemma awaited_routes_report_failure:
  "status (fst (stable_print printers hdr body (Some msg))) \<noteq> 200"
  "status (fst (core_print rt printers hdr body isConnected (Some msg))) \<noteq> 200"
  by (auto simp: stable_print_def core_print_def Let_def
      split: option.splits sum.splits prod.splits)

text \<open>
  The probe of \<^verbatim>\<open>src/unnamed/part_000\<close>: until the socket emits \<^verbatim>\<open>close\<close> the promise is
  pending and \<^verbatim>\<open>online\<close> tells whether \<^verbatim>\<open>connect\<close> was emitted; the first \<^verbatim>\<open>close\<close>
  settles the promise with that value, for good; and after \<^verbatim>\<open>connect\<close> or \<^verbatim>\<open>timeout\<close> the
  probe has destroyed the socket.
\<close>

lemma probe_pending:
  "Close \<notin> set es \<Longrightarrow>
     settled (foldl isPrinterOnline_on probe_start es) = None \<and>
     online (foldl isPrinterOnline_on probe_start es) = (Connect \<in> set es) \<and>
     ran_connect (foldl isPrinterOnline_on probe_start es) = (Connect \<in> set es) \<and>
     (Connect \<in> set es \<or> Timeout \<in> set es \<longrightarrow> destroyed (foldl isPrinterOnline_on probe_start es))"
proof (induction es rule: rev_induct)
  case Nil
  then show ?case by (simp add: probe_start_def)
next
  case (snoc e es)
  then show ?case by (cases e) auto
qed

lemma probe_result:
  assumes "Close \<notin> set es"
  shows "settled (isPrinterOnline (es @ Close # later)) = Some (Connect \<in> set es)"
proof -
  from probe_pending [OF assms]
  have "settled (foldl isPrinterOnline_on probe_start (es @ [Close])) = Some (Connect \<in> set es)"
    by (simp add: resolve_def)
  from probe_settles_once [OF this, of later] show ?thesis
    by (simp add: isPrinterOnline_def)
qed

end
